theory Spec2Isabelle
  imports Complex_Main
begin

section \<open>Laplacian-of-Gaussian kernels: a model of \<^verbatim>\<open>laplacian_of_gaussian.py\<close>\<close>

text \<open>
  The Python module has three numeric functions (\<^verbatim>\<open>gaussian\<close>, \<^verbatim>\<open>laplacian\<close>,
  \<^verbatim>\<open>laplacian_of_gaussian_kernel\<close>) and a brute-force parameter search
  (\<^verbatim>\<open>find_reference\<close>). Their arguments are Python numbers: an \<^verbatim>\<open>int\<close> of any
  size or a \<^verbatim>\<open>float\<close>, an IEEE 754 double. The model keeps the two apart, follows
  Python's rules for mixing them, and keeps every way an operation can end: a value
  (which may be an infinity or a NaN) or an exception.

  What the repository does not contain is the arithmetic of the machine: how an exact
  result is rounded to a double, and what the C library's \<^verbatim>\<open>pow\<close> returns. Both are
  parameters of the model (\<open>machine\<close>); a theorem about the model holds for every
  rounding and every \<^verbatim>\<open>pow\<close>, so also for those of the machine the code runs on.
  Memory is not modelled: a list of any length can be built.
\<close>

subsection \<open>Exceptions\<close>

text \<open>
  \<open>ComplexPower\<close> is not an exception: a negative float raised to a fractional power
  gives a Python \<^verbatim>\<open>complex\<close>, and the model, which has no complex numbers, stops
  there.
\<close>

datatype py_error = ZeroDivisionError | OverflowError | IndexError | TypeError | ComplexPower

definition bind_res :: "py_error + 'a \<Rightarrow> ('a \<Rightarrow> py_error + 'b) \<Rightarrow> py_error + 'b" where
  "bind_res r f = (case r of Inl e \<Rightarrow> Inl e | Inr v \<Rightarrow> f v)"

subsection \<open>Floats and numbers\<close>

text \<open>
  A float is a finite double, given by its value, an infinity or a NaN. The two zeros
  of IEEE 754 are one value here: they differ only under operations the module does not
  use (a division by either raises, and no odd power of a zero is taken).
\<close>

datatype pyfloat = Fin real | PInf | NInf | NaN

datatype num = I int | F pyfloat

record machine =
  rnd :: "real \<Rightarrow> pyfloat"
  c_pow :: "real \<Rightarrow> real \<Rightarrow> real option"

text \<open>
  \<open>rnd M r\<close> is the double (or infinity, on overflow) to which the machine rounds the
  exact result \<open>r\<close>. \<open>c_pow M v w\<close> is the C library's \<^verbatim>\<open>pow(v, w)\<close> for a
  finite \<open>v > 0\<close>, \<open>v \<noteq> 1\<close> and a finite \<open>w \<noteq> 0\<close>: a finite double, or \<open>None\<close>
  when the result overflows. An exact result 0 is a double and is not rounded.
\<close>

definition fl :: "machine \<Rightarrow> real \<Rightarrow> pyfloat" where
  "fl M r = (if r = 0 then Fin 0 else rnd M r)"

fun f_neg :: "pyfloat \<Rightarrow> pyfloat" where
  "f_neg (Fin r) = Fin (- r)"
| "f_neg PInf = NInf"
| "f_neg NInf = PInf"
| "f_neg NaN = NaN"

fun f_abs :: "pyfloat \<Rightarrow> pyfloat" where
  "f_abs (Fin r) = Fin \<bar>r\<bar>"
| "f_abs PInf = PInf"
| "f_abs NInf = PInf"
| "f_abs NaN = NaN"

text \<open>\<^verbatim>\<open>a < b\<close> on floats: false when either is a NaN.\<close>

fun f_less :: "pyfloat \<Rightarrow> pyfloat \<Rightarrow> bool" where
  "f_less NaN b = False"
| "f_less a NaN = False"
| "f_less (Fin a) (Fin b) = (a < b)"
| "f_less a PInf = (a \<noteq> PInf)"
| "f_less PInf b = False"
| "f_less NInf b = (b \<noteq> NInf)"
| "f_less a NInf = False"

fun f_add :: "machine \<Rightarrow> pyfloat \<Rightarrow> pyfloat \<Rightarrow> pyfloat" where
  "f_add M (Fin a) (Fin b) = fl M (a + b)"
| "f_add M NaN b = NaN"
| "f_add M a NaN = NaN"
| "f_add M PInf NInf = NaN"
| "f_add M NInf PInf = NaN"
| "f_add M PInf b = PInf"
| "f_add M NInf b = NInf"
| "f_add M a PInf = PInf"
| "f_add M a NInf = NInf"

definition f_sub :: "machine \<Rightarrow> pyfloat \<Rightarrow> pyfloat \<Rightarrow> pyfloat" where
  "f_sub M a b = f_add M a (f_neg b)"

text \<open>The sign of a product or quotient one of whose operands is an infinity.\<close>

definition signed_inf :: "pyfloat \<Rightarrow> pyfloat \<Rightarrow> pyfloat" where
  "signed_inf a b = (if f_less (Fin 0) a = f_less (Fin 0) b then PInf else NInf)"

definition f_mul :: "machine \<Rightarrow> pyfloat \<Rightarrow> pyfloat \<Rightarrow> pyfloat" where
  "f_mul M a b =
     (if a = NaN \<or> b = NaN then NaN
      else case (a, b) of
        (Fin x, Fin y) \<Rightarrow> fl M (x * y)
      | _ \<Rightarrow> if a = Fin 0 \<or> b = Fin 0 then NaN else signed_inf a b)"

text \<open>The quotient of two floats, the divisor not zero.\<close>

definition f_div :: "machine \<Rightarrow> pyfloat \<Rightarrow> pyfloat \<Rightarrow> pyfloat" where
  "f_div M a b =
     (if a = NaN \<or> b = NaN then NaN
      else case (a, b) of
        (Fin x, Fin y) \<Rightarrow> fl M (x / y)
      | (Fin x, _) \<Rightarrow> Fin 0
      | (_, Fin y) \<Rightarrow> signed_inf a b
      | _ \<Rightarrow> NaN)"

text \<open>
  \<^verbatim>\<open>float(n)\<close> for an \<^verbatim>\<open>int\<close>, as every mixed operation does it: exact up to
  \<open>2\<^sup>5\<^sup>3\<close>, rounded beyond, \<^verbatim>\<open>OverflowError\<close> when the int is too large for a
  double.
\<close>

definition int_to_float :: "machine \<Rightarrow> int \<Rightarrow> py_error + pyfloat" where
  "int_to_float M n =
     (if \<bar>n\<bar> \<le> 2 ^ 53 then Inr (Fin (real_of_int n))
      else case rnd M (real_of_int n) of Fin r \<Rightarrow> Inr (Fin r) | _ \<Rightarrow> Inl OverflowError)"

definition to_float :: "machine \<Rightarrow> num \<Rightarrow> py_error + pyfloat" where
  "to_float M a = (case a of I n \<Rightarrow> int_to_float M n | F x \<Rightarrow> Inr x)"

text \<open>The exact value of a number, for comparisons: Python compares an int and a float exactly.\<close>

definition exact_value :: "num \<Rightarrow> pyfloat" where
  "exact_value a = (case a of I n \<Rightarrow> Fin (real_of_int n) | F x \<Rightarrow> x)"

definition num_less :: "num \<Rightarrow> num \<Rightarrow> bool" where
  "num_less a b = f_less (exact_value a) (exact_value b)"

definition is_zero :: "num \<Rightarrow> bool" where
  "is_zero a = (a = I 0 \<or> a = F (Fin 0))"

subsection \<open>Python's arithmetic\<close>

text \<open>
  \<^verbatim>\<open>+\<close>, \<^verbatim>\<open>-\<close> and \<^verbatim>\<open>*\<close> are exact on two ints. Otherwise both operands
  become floats, the left one first, and the float operation never raises: it
  overflows to an infinity.
\<close>

definition float_op ::
  "machine \<Rightarrow> (pyfloat \<Rightarrow> pyfloat \<Rightarrow> pyfloat) \<Rightarrow> num \<Rightarrow> num \<Rightarrow> py_error + num" where
  "float_op M f a b =
     bind_res (to_float M a) (\<lambda>x. bind_res (to_float M b) (\<lambda>y. Inr (F (f x y))))"

definition py_add :: "machine \<Rightarrow> num \<Rightarrow> num \<Rightarrow> py_error + num" where
  "py_add M a b =
     (case (a, b) of (I m, I n) \<Rightarrow> Inr (I (m + n)) | _ \<Rightarrow> float_op M (f_add M) a b)"

definition py_sub :: "machine \<Rightarrow> num \<Rightarrow> num \<Rightarrow> py_error + num" where
  "py_sub M a b =
     (case (a, b) of (I m, I n) \<Rightarrow> Inr (I (m - n)) | _ \<Rightarrow> float_op M (f_sub M) a b)"

definition py_mul :: "machine \<Rightarrow> num \<Rightarrow> num \<Rightarrow> py_error + num" where
  "py_mul M a b =
     (case (a, b) of (I m, I n) \<Rightarrow> Inr (I (m * n)) | _ \<Rightarrow> float_op M (f_mul M) a b)"

text \<open>
  \<^verbatim>\<open>a / b\<close>. On two ints: \<^verbatim>\<open>ZeroDivisionError\<close> for \<open>b = 0\<close>, else the rounded
  quotient, \<^verbatim>\<open>OverflowError\<close> when it is too large for a double. Otherwise both
  become floats; a zero divisor raises \<^verbatim>\<open>ZeroDivisionError\<close>, any other divisor
  gives the float quotient, which may be an infinity or a NaN.
\<close>

definition py_truediv :: "machine \<Rightarrow> num \<Rightarrow> num \<Rightarrow> py_error + num" where
  "py_truediv M a b =
     (case (a, b) of
        (I m, I n) \<Rightarrow>
          if n = 0 then Inl ZeroDivisionError
          else (case fl M (real_of_int m / real_of_int n) of
                  Fin r \<Rightarrow> Inr (F (Fin r))
                | _ \<Rightarrow> Inl OverflowError)
      | _ \<Rightarrow>
          bind_res (to_float M a) (\<lambda>x.
          bind_res (to_float M b) (\<lambda>y.
            if y = Fin 0 then Inl ZeroDivisionError else Inr (F (f_div M x y)))))"

definition py_neg :: "num \<Rightarrow> num" where
  "py_neg a = (case a of I n \<Rightarrow> I (- n) | F x \<Rightarrow> F (f_neg x))"

definition py_abs :: "num \<Rightarrow> num" where
  "py_abs a = (case a of I n \<Rightarrow> I \<bar>n\<bar> | F x \<Rightarrow> F (f_abs x))"

text \<open>\<^verbatim>\<open>max(a, b)\<close> keeps \<open>a\<close> unless \<^verbatim>\<open>b > a\<close>.\<close>

definition py_max :: "num \<Rightarrow> num \<Rightarrow> num" where
  "py_max a b = (if num_less a b then b else a)"

text \<open>
  \<^verbatim>\<open>v ** w\<close> on floats, case by case as the interpreter decides it before it calls
  the C library: \<open>w = 0\<close> gives 1; a NaN gives a NaN (but \<open>1 ** nan = 1\<close>); an infinite
  \<open>w\<close> or \<open>v\<close> gives 0, 1 or an infinity; \<open>0 ** w\<close> is 0 for \<open>w > 0\<close> and raises
  \<^verbatim>\<open>ZeroDivisionError\<close> for \<open>w < 0\<close>; a negative \<open>v\<close> with a fractional \<open>w\<close> gives a
  complex number; \<open>(\<plusminus>1) ** w\<close> is \<open>\<plusminus>1\<close>; and every other case is the C library's
  \<^verbatim>\<open>pow\<close> on \<open>\<bar>v\<bar>\<close>, negated for a negative \<open>v\<close> and an odd \<open>w\<close>, whose overflow
  raises \<^verbatim>\<open>OverflowError\<close>.
\<close>

definition odd_integer :: "real \<Rightarrow> bool" where
  "odd_integer w = (w = real_of_int \<lfloor>w\<rfloor> \<and> odd \<lfloor>w\<rfloor>)"

definition finite_pow :: "machine \<Rightarrow> real \<Rightarrow> real \<Rightarrow> py_error + pyfloat" where
  "finite_pow M v w =
     (if v = 0 then (if w < 0 then Inl ZeroDivisionError else Inr (Fin 0))
      else if v < 0 \<and> w \<noteq> real_of_int \<lfloor>w\<rfloor> then Inl ComplexPower
      else if \<bar>v\<bar> = 1 then Inr (Fin (if v < 0 \<and> odd_integer w then - 1 else 1))
      else (case c_pow M \<bar>v\<bar> w of
              None \<Rightarrow> Inl OverflowError
            | Some r \<Rightarrow> Inr (Fin (if v < 0 \<and> odd_integer w then - r else r))))"

definition float_pow :: "machine \<Rightarrow> pyfloat \<Rightarrow> pyfloat \<Rightarrow> py_error + pyfloat" where
  "float_pow M v w =
     (if w = Fin 0 then Inr (Fin 1)
      else if v = NaN then Inr NaN
      else if w = NaN then Inr (if v = Fin 1 then Fin 1 else NaN)
      else case (v, w) of
        (Fin x, Fin y) \<Rightarrow> finite_pow M x y
      | (_, Fin y) \<Rightarrow>
          Inr (if 0 < y then (if odd_integer y then v else PInf) else Fin 0)
      | _ \<Rightarrow>
          Inr (if f_abs v = Fin 1 then Fin 1
               else if (w = PInf) = f_less (Fin 1) (f_abs v) then PInf
               else Fin 0))"

text \<open>
  \<^verbatim>\<open>a ** b\<close>: exact on two ints with \<open>b \<ge> 0\<close>, the float power otherwise.
\<close>

definition py_pow :: "machine \<Rightarrow> num \<Rightarrow> num \<Rightarrow> py_error + num" where
  "py_pow M a b =
     (case (a, b) of
        (I m, I n) \<Rightarrow>
          if 0 \<le> n then Inr (I (m ^ nat n))
          else bind_res (int_to_float M m) (\<lambda>v. bind_res (int_to_float M n) (\<lambda>w.
                 bind_res (float_pow M v w) (\<lambda>r. Inr (F r))))
      | _ \<Rightarrow>
          bind_res (to_float M a) (\<lambda>v. bind_res (to_float M b) (\<lambda>w.
            bind_res (float_pow M v w) (\<lambda>r. Inr (F r)))))"

text \<open>\<^verbatim>\<open>m.e\<close>, \<^verbatim>\<open>m.pi\<close> and a float literal: the double nearest the number.\<close>

definition literal :: "machine \<Rightarrow> real \<Rightarrow> num" where
  "literal M r = F (fl M r)"

definition m_e :: "machine \<Rightarrow> num" where
  "m_e M = literal M (exp 1)"

definition m_pi :: "machine \<Rightarrow> num" where
  "m_pi M = literal M pi"

subsection \<open>The two evaluators\<close>

text \<open>
  \<^verbatim>\<open>output = m.e**(-((x - u1)**2 + (y - u2)**2)/(2*(s**2)))\<close>
  \<^verbatim>\<open>output /= ((2*m.pi)**2 * (s**4))**(1/2)\<close>
  The operations are taken in the order Python evaluates them. The unary minus binds
  tighter than \<^verbatim>\<open>/\<close>, so the quotient is \<open>(- A) / (2 s\<^sup>2)\<close>.
\<close>

definition sq_distance :: "machine \<Rightarrow> num \<Rightarrow> num \<Rightarrow> num \<Rightarrow> num \<Rightarrow> py_error + num" where
  "sq_distance M x y u1 u2 =
     bind_res (py_sub M x u1) (\<lambda>dx.
     bind_res (py_pow M dx (I 2)) (\<lambda>dx2.
     bind_res (py_sub M y u2) (\<lambda>dy.
     bind_res (py_pow M dy (I 2)) (\<lambda>dy2.
       py_add M dx2 dy2))))"

definition gaussian :: "machine \<Rightarrow> num \<Rightarrow> num \<Rightarrow> num \<Rightarrow> num \<Rightarrow> num \<Rightarrow> py_error + num" where
  "gaussian M x y s u1 u2 =
     bind_res (sq_distance M x y u1 u2) (\<lambda>a.
     bind_res (py_pow M s (I 2)) (\<lambda>s2.
     bind_res (py_mul M (I 2) s2) (\<lambda>d.
     bind_res (py_truediv M (py_neg a) d) (\<lambda>t.
     bind_res (py_pow M (m_e M) t) (\<lambda>output.
     bind_res (py_mul M (I 2) (m_pi M)) (\<lambda>tp.
     bind_res (py_pow M tp (I 2)) (\<lambda>tp2.
     bind_res (py_pow M s (I 4)) (\<lambda>s4.
     bind_res (py_mul M tp2 s4) (\<lambda>p.
     bind_res (py_truediv M (I 1) (I 2)) (\<lambda>half.
     bind_res (py_pow M p half) (\<lambda>root.
       py_truediv M output root)))))))))))"

text \<open>
  \<^verbatim>\<open>output = gaussian(x, y, s, u1, u2)\<close>
  \<^verbatim>\<open>output *= (((x - u1)**2) + ((y - u2)**2))/(s**2) - 2\<close>
  \<^verbatim>\<open>output /= s**2\<close>
\<close>

definition laplacian :: "machine \<Rightarrow> num \<Rightarrow> num \<Rightarrow> num \<Rightarrow> num \<Rightarrow> num \<Rightarrow> py_error + num" where
  "laplacian M x y s u1 u2 =
     bind_res (gaussian M x y s u1 u2) (\<lambda>output.
     bind_res (sq_distance M x y u1 u2) (\<lambda>a.
     bind_res (py_pow M s (I 2)) (\<lambda>s2.
     bind_res (py_truediv M a s2) (\<lambda>q.
     bind_res (py_sub M q (I 2)) (\<lambda>factor.
     bind_res (py_mul M output factor) (\<lambda>output.
     bind_res (py_pow M s (I 2)) (\<lambda>s2.
       py_truediv M output s2)))))))"

subsection \<open>Lists of lists, \<^verbatim>\<open>range\<close> and \<^verbatim>\<open>for\<close>\<close>

text \<open>
  The kernel is a list of rows. A cell is \<open>None\<close> (Python's \<^verbatim>\<open>None\<close>, the
  placeholder of line 86) or \<open>Some v\<close> (a number). Reading a cell for arithmetic
  raises \<^verbatim>\<open>TypeError\<close> on \<^verbatim>\<open>None\<close> and \<^verbatim>\<open>IndexError\<close> out of range;
  the indices come from \<^verbatim>\<open>range\<close>, so they are never negative.
\<close>

type_synonym kernel = "num option list list"

definition py_range :: "int \<Rightarrow> nat list" where
  "py_range n = [0 ..< nat n]"

definition get_cell :: "kernel \<Rightarrow> nat \<Rightarrow> nat \<Rightarrow> py_error + num" where
  "get_cell kern i j =
     (if i < length kern \<and> j < length (kern ! i)
      then (case kern ! i ! j of None \<Rightarrow> Inl TypeError | Some v \<Rightarrow> Inr v)
      else Inl IndexError)"

definition set_cell :: "kernel \<Rightarrow> nat \<Rightarrow> nat \<Rightarrow> num \<Rightarrow> py_error + kernel" where
  "set_cell kern i j v =
     (if i < length kern \<and> j < length (kern ! i)
      then Inr (kern[i := (kern ! i)[j := Some v]])
      else Inl IndexError)"

text \<open>\<^verbatim>\<open>for i in idxs: body\<close>, threading the variables the body assigns.\<close>

fun for_each :: "'i list \<Rightarrow> ('i \<Rightarrow> 'st \<Rightarrow> py_error + 'st) \<Rightarrow> 'st \<Rightarrow> py_error + 'st" where
  "for_each [] body st = Inr st"
| "for_each (i # idxs) body st =
     (case body i st of Inl e \<Rightarrow> Inl e | Inr st' \<Rightarrow> for_each idxs body st')"

subsection \<open>The kernel builder\<close>

text \<open>Line 86: \<^verbatim>\<open>[[None for b in range(side_length)] for a in range(side_length)]\<close>.\<close>

definition empty_kernel :: "int \<Rightarrow> kernel" where
  "empty_kernel side_length =
     map (\<lambda>a. map (\<lambda>b. None) (py_range side_length)) (py_range side_length)"

text \<open>
  Lines 91 and 94: \<^verbatim>\<open>domain*(2*(j/(side_length - 1)) - 1)\<close>, where \<open>scale\<close> is
  \<^verbatim>\<open>domain\<close> for \<open>x\<close> and \<^verbatim>\<open>-domain\<close>, which Python evaluates first, for \<open>y\<close>.
\<close>

definition coordinate :: "machine \<Rightarrow> int \<Rightarrow> num \<Rightarrow> nat \<Rightarrow> py_error + num" where
  "coordinate M side_length scale k =
     bind_res (py_truediv M (I (int k)) (I (side_length - 1))) (\<lambda>q.
     bind_res (py_mul M (I 2) q) (\<lambda>q2.
     bind_res (py_sub M q2 (I 1)) (\<lambda>c.
       py_mul M scale c)))"

text \<open>
  Lines 90 to 100, the body of the outer loop for one row \<open>i\<close>; the state is the pair
  of \<^verbatim>\<open>kernel\<close> and \<^verbatim>\<open>mean\<close>.
\<close>

definition fill_row ::
  "machine \<Rightarrow> int \<Rightarrow> num \<Rightarrow> num \<Rightarrow> num \<Rightarrow> num \<Rightarrow> nat \<Rightarrow> kernel \<times> num
     \<Rightarrow> py_error + kernel \<times> num" where
  "fill_row M side_length domain s u1 u2 i st =
     bind_res (coordinate M side_length (py_neg domain) i) (\<lambda>y.
       for_each (py_range side_length)
         (\<lambda>j (kern, mean).
            bind_res (coordinate M side_length domain j) (\<lambda>x.
            bind_res (laplacian M x y s u1 u2) (\<lambda>L.
            bind_res (set_cell kern i j L) (\<lambda>kern.
            bind_res (py_add M mean L) (\<lambda>mean.
              Inr (kern, mean))))))
         st)"

text \<open>
  Lines 86 to 102: the sampling loops from \<^verbatim>\<open>mean = 0\<close>, and
  \<^verbatim>\<open>mean /= side_length**2\<close>. The result is the raw kernel and the mean, the state
  in which the normalization passes start.
\<close>

definition sample_kernel ::
  "machine \<Rightarrow> int \<Rightarrow> num \<Rightarrow> num \<Rightarrow> num \<Rightarrow> num \<Rightarrow> py_error + kernel \<times> num" where
  "sample_kernel M side_length domain s u1 u2 =
     bind_res (for_each (py_range side_length) (fill_row M side_length domain s u1 u2)
                 (empty_kernel side_length, I 0)) (\<lambda>(kern, mean).
     bind_res (py_truediv M mean (I (side_length ^ 2))) (\<lambda>mean.
       Inr (kern, mean)))"

text \<open>
  The five remaining double loops have two shapes. One rewrites every cell in place
  (\<^verbatim>\<open>kernel[i][j] -= mean\<close>, \<^verbatim>\<open>kernel[i][j] /= max_value\<close>,
  \<^verbatim>\<open>kernel[i][j] /= total\<close>); the other reads every cell into an accumulator
  (\<^verbatim>\<open>max_value = max(max_value, abs(kernel[i][j]))\<close>,
  \<^verbatim>\<open>total += abs(kernel[i][j])\<close>).
\<close>

definition update_cells :: "int \<Rightarrow> (num \<Rightarrow> py_error + num) \<Rightarrow> kernel \<Rightarrow> py_error + kernel" where
  "update_cells side_length f kern =
     for_each (py_range side_length)
       (\<lambda>i. for_each (py_range side_length)
          (\<lambda>j kern.
             bind_res (get_cell kern i j) (\<lambda>v.
             bind_res (f v) (\<lambda>v'.
               set_cell kern i j v'))))
       kern"

definition scan_cells ::
  "int \<Rightarrow> (num \<Rightarrow> num \<Rightarrow> py_error + num) \<Rightarrow> num \<Rightarrow> kernel \<Rightarrow> py_error + num" where
  "scan_cells side_length f acc kern =
     for_each (py_range side_length)
       (\<lambda>i. for_each (py_range side_length)
          (\<lambda>j acc. bind_res (get_cell kern i j) (\<lambda>v. f acc v)))
       acc"

text \<open>Lines 106 to 108.\<close>

definition subtract_mean :: "machine \<Rightarrow> int \<Rightarrow> num \<Rightarrow> kernel \<Rightarrow> py_error + kernel" where
  "subtract_mean M side_length mean kern =
     update_cells side_length (\<lambda>v. py_sub M v mean) kern"

text \<open>Lines 112 to 115, starting from \<^verbatim>\<open>max_value = 0\<close>.\<close>

definition find_max_value :: "int \<Rightarrow> kernel \<Rightarrow> py_error + num" where
  "find_max_value side_length kern =
     scan_cells side_length (\<lambda>max_value v. Inr (py_max max_value (py_abs v))) (I 0) kern"

text \<open>Lines 123 to 126, starting from \<^verbatim>\<open>total = 0\<close>.\<close>

definition find_total :: "machine \<Rightarrow> int \<Rightarrow> kernel \<Rightarrow> py_error + num" where
  "find_total M side_length kern =
     scan_cells side_length (\<lambda>total v. py_add M total (py_abs v)) (I 0) kern"

text \<open>Lines 117 to 119 and 128 to 130.\<close>

definition divide_cells :: "machine \<Rightarrow> int \<Rightarrow> num \<Rightarrow> kernel \<Rightarrow> py_error + kernel" where
  "divide_cells M side_length d kern =
     update_cells side_length (\<lambda>v. py_truediv M v d) kern"

definition laplacian_of_gaussian_kernel ::
  "machine \<Rightarrow> int \<Rightarrow> num \<Rightarrow> num \<Rightarrow> num \<Rightarrow> num \<Rightarrow> bool \<Rightarrow> bool \<Rightarrow> bool \<Rightarrow> py_error + kernel" where
  "laplacian_of_gaussian_kernel M side_length domain s u1 u2
       zero_center max_normalize absolute_l1_normalize =
     bind_res (sample_kernel M side_length domain s u1 u2) (\<lambda>(kern, mean).
     bind_res (if zero_center then subtract_mean M side_length mean kern
               else Inr kern) (\<lambda>kern.
     bind_res (if max_normalize
               then bind_res (find_max_value side_length kern) (\<lambda>max_value.
                      divide_cells M side_length max_value kern)
               else Inr kern) (\<lambda>kern.
     bind_res (if absolute_l1_normalize
               then bind_res (find_total M side_length kern) (\<lambda>total.
                      divide_cells M side_length total kern)
               else Inr kern) (\<lambda>kern.
       Inr kern))))"

subsection \<open>The parameter search\<close>

text \<open>
  \<^verbatim>\<open>find_reference\<close> keeps three variables over its two loops: \<^verbatim>\<open>values\<close>,
  \<^verbatim>\<open>new_kernel\<close> and \<^verbatim>\<open>min_diff\<close>. \<^verbatim>\<open>values\<close> is the string
  \<^verbatim>\<open>"domain : {}, sigma : {}".format(kernel_domain, kernel_sigma)\<close>; here it is the
  pair the string is formatted from, and \<open>None\<close> stands for the initial \<^verbatim>\<open>""\<close> and
  for the initial \<^verbatim>\<open>new_kernel = None\<close>. The final \<^verbatim>\<open>print\<close> and the plot show
  these variables and are not modelled. The field for \<^verbatim>\<open>values\<close> is named
  \<open>values_str\<close>, since \<open>values\<close> is a command of Isabelle.
\<close>

record search_state =
  values_str :: "(num \<times> num) option"
  new_kernel :: "kernel option"
  min_diff :: num

type_synonym scored = "(num \<times> num) \<times> kernel \<times> num"

text \<open>
  Lines 186 to 192: the candidate of row \<open>i\<close> and column \<open>j\<close>, its kernel and its
  score \<^verbatim>\<open>current_diff\<close>.
\<close>

definition grid_point :: "machine \<Rightarrow> int \<Rightarrow> nat \<Rightarrow> py_error + num" where
  "grid_point M search k =
     bind_res (py_truediv M (I (int k)) (I (search - 1))) (\<lambda>q.
     bind_res (py_mul M (I 4) q) (\<lambda>q4.
       py_add M (literal M 0.0001) q4))"

definition distance_to :: "machine \<Rightarrow> num \<Rightarrow> kernel \<Rightarrow> nat \<Rightarrow> nat \<Rightarrow> py_error + num" where
  "distance_to M target kern i j =
     bind_res (get_cell kern i j) (\<lambda>v.
     bind_res (py_sub M target v) (\<lambda>d.
       Inr (py_abs d)))"

definition candidate :: "machine \<Rightarrow> int \<Rightarrow> nat \<Rightarrow> nat \<Rightarrow> py_error + scored" where
  "candidate M search i j =
     bind_res (grid_point M search j) (\<lambda>kernel_domain.
     bind_res (grid_point M search i) (\<lambda>kernel_sigma.
     bind_res (laplacian_of_gaussian_kernel M 3 kernel_domain kernel_sigma (I 0) (I 0)
                 True False False) (\<lambda>kern.
     bind_res (distance_to M (literal M 0.066) kern 0 0) (\<lambda>d00.
     bind_res (distance_to M (literal M 0.184) kern 0 1) (\<lambda>d01.
     bind_res (py_add M d00 d01) (\<lambda>d.
     bind_res (get_cell kern 1 1) (\<lambda>k11.
     bind_res (py_add M (I 1) k11) (\<lambda>c.
     bind_res (py_add M d (py_abs c)) (\<lambda>current_diff.
       Inr ((kernel_domain, kernel_sigma), kern, current_diff))))))))))"

text \<open>Lines 196 to 199: \<^verbatim>\<open>if current_diff < min_diff: ...\<close>.\<close>

definition keep_minimum :: "scored \<Rightarrow> search_state \<Rightarrow> search_state" where
  "keep_minimum c st =
     (case c of (cand, kern, current_diff) \<Rightarrow>
        if num_less current_diff (min_diff st)
        then st\<lparr>values_str := Some cand, min_diff := current_diff, new_kernel := Some kern\<rparr>
        else st)"

text \<open>
  Lines 177 to 199: the two loops over \<^verbatim>\<open>range(search)\<close>, rows \<open>i\<close> outside and
  columns \<open>j\<close> inside, from \<^verbatim>\<open>min_diff = 100000\<close>. The evaluation of a candidate is
  a parameter, so that the reduction can be studied on any scores;
  \<^verbatim>\<open>find_reference\<close> is the search with the evaluation of the source and
  \<^verbatim>\<open>search = 2000\<close>.
\<close>

definition search_grid :: "int \<Rightarrow> (nat \<Rightarrow> nat \<Rightarrow> py_error + scored) \<Rightarrow> py_error + search_state" where
  "search_grid search evaluate =
     for_each (py_range search)
       (\<lambda>i. for_each (py_range search)
          (\<lambda>j st. bind_res (evaluate i j) (\<lambda>c. Inr (keep_minimum c st))))
       \<lparr>values_str = None, new_kernel = None, min_diff = I 100000\<rparr>"

definition find_reference :: "machine \<Rightarrow> py_error + search_state" where
  "find_reference M = search_grid 2000 (candidate M 2000)"

text \<open>A kernel of zeros: \<open>m\<close> rows of \<open>m\<close> cells, each the int 0 or the float 0.0.\<close>

definition all_zero :: "nat \<Rightarrow> kernel \<Rightarrow> bool" where
  "all_zero m kern =
     (length kern = m \<and>
      list_all (\<lambda>row. length row = m \<and> list_all (\<lambda>c. c = Some (I 0) \<or> c = Some (F (Fin 0))) row)
        kern)"

text \<open>
  A machine that does not round, and whose \<^verbatim>\<open>pow\<close> is exact. The code runs on no
  such machine; it serves to show that the hypotheses of the theorems can be met.
\<close>

definition exact_machine :: machine where
  "exact_machine = \<lparr>rnd = Fin, c_pow = (\<lambda>v w. Some (v powr w))\<rparr>"

section \<open>Proofs\<close>

subsection \<open>Sequencing and loops\<close>

lemma bind_res_Inr [simp]: "bind_res (Inr v) f = f v"
  by (simp add: bind_res_def)

lemma bind_res_Inl [simp]: "bind_res (Inl e) f = Inl e"
  by (simp add: bind_res_def)

lemma for_each_append:
  "for_each (xs @ ys) body st =
     (case for_each xs body st of Inl e \<Rightarrow> Inl e | Inr st' \<Rightarrow> for_each ys body st')"
  by (induction xs arbitrary: st) (auto split: sum.splits)

lemma for_each_first_fails:
  assumes "0 < m" "body 0 st = Inl e"
  shows "for_each [0 ..< m] body st = Inl e"
  using assms by (simp add: upt_conv_Cons)

text \<open>A loop over \<open>range(m)\<close> that keeps a property \<open>P k\<close> of the state at round \<open>k\<close>.\<close>

lemma for_each_upt_pred:
  assumes "P 0 st0"
    and "\<And>k st. k < m \<Longrightarrow> P k st \<Longrightarrow> \<exists>st'. body k st = Inr st' \<and> P (Suc k) st'"
  shows "\<exists>st. for_each [0 ..< m] body st0 = Inr st \<and> P m st"
  using assms(2)
proof (induction m)
  case 0
  then show ?case using assms(1) by simp
next
  case (Suc m)
  then obtain st where st: "for_each [0 ..< m] body st0 = Inr st" "P m st"
    by (metis less_Suc_eq)
  then obtain st' where "body m st = Inr st'" "P (Suc m) st'"
    using Suc.prems [of m st] by blast
  with st show ?case by (simp add: for_each_append)
qed

lemma upt_2: "[0 ..< 2] = [0, 1]"
  by (simp add: upt_rec)

subsection \<open>The minimum kept by the search\<close>

lemma search_grid_first_minimum:
  assumes ev: "\<And>i j. i < m \<Longrightarrow> j < m \<Longrightarrow> evaluate i j = Inr (cand i j, kern i j, diff i j)"
    and i0: "i0 < m" and j0: "j0 < m"
    and small: "num_less (diff i0 j0) (I 100000)"
    and least: "\<And>i j. i < m \<Longrightarrow> j < m \<Longrightarrow> \<not> num_less (diff i j) (diff i0 j0)"
    and first: "\<And>i j. i < m \<Longrightarrow> j < m \<Longrightarrow> i < i0 \<or> (i = i0 \<and> j < j0)
                  \<Longrightarrow> num_less (diff i0 j0) (diff i j)"
  shows "search_grid (int m) evaluate
           = Inr \<lparr>values_str = Some (cand i0 j0), new_kernel = Some (kern i0 j0),
                  min_diff = diff i0 j0\<rparr>"
proof -
  let ?final = "\<lparr>values_str = Some (cand i0 j0), new_kernel = Some (kern i0 j0),
                  min_diff = diff i0 j0\<rparr>"
  let ?Q = "\<lambda>i j st. if i < i0 \<or> (i = i0 \<and> j \<le> j0)
                       then num_less (diff i0 j0) (min_diff st) else st = ?final"
  let ?body = "\<lambda>i j st. bind_res (evaluate i j) (\<lambda>c. Inr (keep_minimum c st))"
  have step: "\<exists>st'. ?body i j st = Inr st' \<and> ?Q i (Suc j) st'"
    if "i < m" "j < m" "?Q i j st" for i j st
  proof -
    have body: "?body i j st = Inr (keep_minimum (cand i j, kern i j, diff i j) st)"
      by (simp add: ev [OF that(1,2)])
    have "?Q i (Suc j) (keep_minimum (cand i j, kern i j, diff i j) st)"
    proof (cases "i < i0 \<or> (i = i0 \<and> j < j0)")
      case True
      then have "num_less (diff i0 j0) (diff i j)" by (rule first [OF that(1,2)])
      moreover have "num_less (diff i0 j0) (min_diff st)" using that(3) True by auto
      ultimately show ?thesis using True by (auto simp: keep_minimum_def)
    next
      case False
      show ?thesis
      proof (cases "i = i0 \<and> j = j0")
        case True
        then have "num_less (diff i0 j0) (min_diff st)" using that(3) by simp
        then show ?thesis using True by (simp add: keep_minimum_def)
      next
        case False
        with \<open>\<not> (i < i0 \<or> (i = i0 \<and> j < j0))\<close> have after: "\<not> (i < i0 \<or> (i = i0 \<and> j \<le> j0))"
          by auto
        then have "st = ?final" using that(3) by simp
        moreover have "\<not> num_less (diff i j) (diff i0 j0)" by (rule least [OF that(1,2)])
        ultimately show ?thesis using after by (auto simp: keep_minimum_def)
      qed
    qed
    with body show ?thesis by simp
  qed
  have row: "\<exists>st'. for_each [0 ..< m] (?body i) st = Inr st' \<and> ?Q (Suc i) 0 st'"
    if im: "i < m" and q: "?Q i 0 st" for i st
  proof -
    obtain st' where st': "for_each [0 ..< m] (?body i) st = Inr st'" "?Q i m st'"
      using for_each_upt_pred [where P = "?Q i" and body = "?body i" and m = m, OF q]
        step [OF im]
      by blast
    have "?Q (Suc i) 0 st'" using st'(2) j0 by (auto split: if_splits)
    with st'(1) show ?thesis by simp
  qed
  let ?init = "\<lparr>values_str = None, new_kernel = None, min_diff = I 100000\<rparr>"
  have "?Q 0 0 ?init" using small by auto
  then obtain st where st: "for_each [0 ..< m] (\<lambda>i. for_each [0 ..< m] (?body i)) ?init = Inr st"
      "?Q m 0 st"
    using for_each_upt_pred [where P = "\<lambda>i. ?Q i 0" and m = m
        and body = "\<lambda>i. for_each [0 ..< m] (?body i)"] row
    by blast
  have "st = ?final" using st(2) i0 by (auto split: if_splits)
  with st(1) show ?thesis by (simp add: search_grid_def py_range_def)
qed

subsection \<open>Which exceptions the arithmetic raises\<close>

lemma int_to_float_error: "int_to_float M n = Inl e \<Longrightarrow> e = OverflowError"
  by (auto simp: int_to_float_def split: if_splits pyfloat.splits)

lemma to_float_error: "to_float M a = Inl e \<Longrightarrow> e = OverflowError"
  by (auto simp: to_float_def dest: int_to_float_error split: num.splits)

lemma float_op_error: "float_op M f a b = Inl e \<Longrightarrow> e = OverflowError"
  by (auto simp: float_op_def bind_res_def dest: to_float_error split: sum.splits)

lemma py_add_error: "py_add M a b = Inl e \<Longrightarrow> e = OverflowError"
  by (auto simp: py_add_def dest: float_op_error split: num.splits)

lemma py_sub_error: "py_sub M a b = Inl e \<Longrightarrow> e = OverflowError"
  by (auto simp: py_sub_def dest: float_op_error split: num.splits)

lemma py_mul_error: "py_mul M a b = Inl e \<Longrightarrow> e = OverflowError"
  by (auto simp: py_mul_def dest: float_op_error split: num.splits)

lemma finite_pow_2_error: "finite_pow M x 2 = Inl e \<Longrightarrow> e = OverflowError"
  by (auto simp: finite_pow_def split: if_splits option.splits)

lemma float_pow_2_error: "float_pow M v (Fin 2) = Inl e \<Longrightarrow> e = OverflowError"
  by (cases v) (auto simp: float_pow_def dest: finite_pow_2_error split: if_splits)

lemma py_pow_2_error: "py_pow M a (I 2) = Inl e \<Longrightarrow> e = OverflowError"
  by (cases a)
     (auto simp: py_pow_def to_float_def int_to_float_def bind_res_def
           dest: float_pow_2_error split: sum.splits)

lemma sq_distance_error: "sq_distance M x y u1 u2 = Inl e \<Longrightarrow> e = OverflowError"
  unfolding sq_distance_def
  by (auto simp: bind_res_def split: sum.splits
           dest: py_sub_error py_pow_2_error py_add_error)

text \<open>A division of two ints, the divisor not zero, raises nothing but \<^verbatim>\<open>OverflowError\<close>.\<close>

lemma py_truediv_int_error:
  "n \<noteq> 0 \<Longrightarrow> py_truediv M (I m) (I n) = Inl e \<Longrightarrow> e = OverflowError"
  by (auto simp: py_truediv_def split: pyfloat.splits)

lemma coordinate_error:
  assumes "side_length \<noteq> 1" "coordinate M side_length scale k = Inl e"
  shows "e = OverflowError"
proof -
  have nz: "side_length - 1 \<noteq> 0" using assms(1) by simp
  show ?thesis
    using assms(2) unfolding coordinate_def
    by (auto simp: bind_res_def split: sum.splits
             dest: py_truediv_int_error [OF nz] py_mul_error py_sub_error)
qed

lemma coordinate_one: "coordinate M 1 scale k = Inl ZeroDivisionError"
  by (simp add: coordinate_def py_truediv_def)

subsection \<open>A zero standard deviation\<close>

lemma py_pow_2_zero: "is_zero s \<Longrightarrow> \<exists>z. py_pow M s (I 2) = Inr z \<and> is_zero z"
  by (auto simp: is_zero_def py_pow_def to_float_def int_to_float_def float_pow_def
        finite_pow_def)

lemma py_mul_2_zero: "is_zero z \<Longrightarrow> \<exists>d. py_mul M (I 2) z = Inr d \<and> is_zero d"
  by (auto simp: is_zero_def py_mul_def float_op_def to_float_def int_to_float_def
        f_mul_def fl_def)

lemma py_truediv_zero:
  assumes "is_zero d"
  shows "py_truediv M a d = Inl ZeroDivisionError \<or> py_truediv M a d = Inl OverflowError"
proof (cases "to_float M a")
  case (Inl e)
  then have "e = OverflowError" by (rule to_float_error)
  with Inl show ?thesis
    using assms
    by (cases a) (auto simp: is_zero_def py_truediv_def to_float_def int_to_float_def)
next
  case (Inr x)
  then show ?thesis
    using assms
    by (cases a) (auto simp: is_zero_def py_truediv_def to_float_def int_to_float_def)
qed

lemma gaussian_zero:
  assumes "is_zero s"
  shows "gaussian M x y s u1 u2 = Inl ZeroDivisionError \<or>
         gaussian M x y s u1 u2 = Inl OverflowError"
proof (cases "sq_distance M x y u1 u2")
  case (Inl e)
  then have "e = OverflowError" by (rule sq_distance_error)
  with Inl show ?thesis by (simp add: gaussian_def)
next
  case (Inr a)
  obtain z where z: "py_pow M s (I 2) = Inr z" "is_zero z"
    using py_pow_2_zero [OF assms] by blast
  obtain d where d: "py_mul M (I 2) z = Inr d" "is_zero d"
    using py_mul_2_zero [OF z(2)] by blast
  show ?thesis
    using py_truediv_zero [OF d(2), of M "py_neg a"]
    by (auto simp: gaussian_def Inr z(1) d(1))
qed

lemma laplacian_zero:
  assumes "is_zero s"
  shows "laplacian M x y s u1 u2 = Inl ZeroDivisionError \<or>
         laplacian M x y s u1 u2 = Inl OverflowError"
  using gaussian_zero [OF assms, of M x y u1 u2] by (auto simp: laplacian_def)

subsection \<open>Side length 1, and a zero standard deviation in the builder\<close>

lemma for_each_first_raises:
  assumes "0 < m" "body 0 st = Inl ZeroDivisionError \<or> body 0 st = Inl OverflowError"
  shows "for_each [0 ..< m] body st = Inl ZeroDivisionError \<or>
         for_each [0 ..< m] body st = Inl OverflowError"
  using assms by (auto simp: upt_conv_Cons)

lemma fill_row_one: "fill_row M 1 domain s u1 u2 i st = Inl ZeroDivisionError"
  by (simp add: fill_row_def coordinate_one)

lemma fill_row_zero:
  assumes "2 \<le> side_length" "is_zero s"
  shows "fill_row M side_length domain s u1 u2 0 st = Inl ZeroDivisionError \<or>
         fill_row M side_length domain s u1 u2 0 st = Inl OverflowError"
proof (cases "coordinate M side_length (py_neg domain) 0")
  case (Inl e)
  then have "e = OverflowError" using assms(1) by (intro coordinate_error [OF _ Inl]) simp
  with Inl show ?thesis by (simp add: fill_row_def)
next
  case (Inr y)
  let ?body = "\<lambda>j (kern, mean).
            bind_res (coordinate M side_length domain j) (\<lambda>x.
            bind_res (laplacian M x y s u1 u2) (\<lambda>L.
            bind_res (set_cell kern 0 j L) (\<lambda>kern.
            bind_res (py_add M mean L) (\<lambda>mean.
              Inr (kern, mean)))))"
  have first: "?body 0 st = Inl ZeroDivisionError \<or> ?body 0 st = Inl OverflowError"
  proof (cases "coordinate M side_length domain 0")
    case (Inl e)
    then have "e = OverflowError" using assms(1) by (intro coordinate_error [OF _ Inl]) simp
    with Inl show ?thesis by (simp split: prod.splits)
  next
    case (Inr x)
    then show ?thesis
      using laplacian_zero [OF assms(2), of M x y u1 u2] by (auto split: prod.splits)
  qed
  have "0 < nat side_length" using assms(1) by simp
  then have "for_each [0 ..< nat side_length] ?body st = Inl ZeroDivisionError \<or>
         for_each [0 ..< nat side_length] ?body st = Inl OverflowError"
    using first by (rule for_each_first_raises)
  then show ?thesis by (simp add: fill_row_def Inr py_range_def)
qed

lemma kernel_one:
  "laplacian_of_gaussian_kernel M 1 domain s u1 u2 zc mx al = Inl ZeroDivisionError"
proof -
  have "for_each [0 ..< 1] (fill_row M 1 domain s u1 u2) (empty_kernel 1, I 0)
          = Inl ZeroDivisionError"
    by (simp add: fill_row_one)
  then show ?thesis
    by (simp add: laplacian_of_gaussian_kernel_def sample_kernel_def py_range_def)
qed

lemma kernel_zero_sigma:
  assumes "0 \<le> side_length" "is_zero s"
  shows "laplacian_of_gaussian_kernel M side_length domain s u1 u2 zc mx al
           = Inl ZeroDivisionError \<or>
         laplacian_of_gaussian_kernel M side_length domain s u1 u2 zc mx al
           = Inl OverflowError"
proof -
  consider "side_length = 0" | "side_length = 1" | "2 \<le> side_length"
    using assms(1) by linarith
  then show ?thesis
  proof cases
    case 1
    then show ?thesis
      by (simp add: laplacian_of_gaussian_kernel_def sample_kernel_def py_range_def
          py_truediv_def)
  next
    case 2
    then show ?thesis by (simp add: kernel_one)
  next
    case 3
    then have "0 < nat side_length" by simp
    then have "for_each [0 ..< nat side_length] (fill_row M side_length domain s u1 u2)
                 (empty_kernel side_length, I 0) = Inl ZeroDivisionError \<or>
               for_each [0 ..< nat side_length] (fill_row M side_length domain s u1 u2)
                 (empty_kernel side_length, I 0) = Inl OverflowError"
      using fill_row_zero [OF 3 assms(2)] by (rule for_each_first_raises)
    then show ?thesis
      by (auto simp: laplacian_of_gaussian_kernel_def sample_kernel_def py_range_def)
  qed
qed

subsection \<open>\<^verbatim>\<open>max_normalize\<close> on a kernel of zeros\<close>

text \<open>The three normalization steps, each on the result of the one before.\<close>

lemma kernel_max_step:
  "laplacian_of_gaussian_kernel M n d s u1 u2 zc mx False
     = bind_res (laplacian_of_gaussian_kernel M n d s u1 u2 zc False False) (\<lambda>kern.
         if mx then bind_res (find_max_value n kern) (\<lambda>max_value. divide_cells M n max_value kern)
         else Inr kern)"
  by (simp add: laplacian_of_gaussian_kernel_def bind_res_def split: sum.splits prod.splits)

lemma kernel_l1_step:
  "laplacian_of_gaussian_kernel M n d s u1 u2 zc mx al
     = bind_res (laplacian_of_gaussian_kernel M n d s u1 u2 zc mx False) (\<lambda>kern.
         if al then bind_res (find_total M n kern) (\<lambda>total. divide_cells M n total kern)
         else Inr kern)"
  by (simp add: laplacian_of_gaussian_kernel_def bind_res_def split: sum.splits prod.splits)

lemma all_zero_cell:
  assumes "all_zero m kern" "i < m" "j < m"
  shows "\<exists>z. get_cell kern i j = Inr z \<and> is_zero z"
proof -
  have len: "length kern = m" and
    rows: "\<forall>a < m. length (kern ! a) = m \<and>
             (\<forall>b < m. kern ! a ! b = Some (I 0) \<or> kern ! a ! b = Some (F (Fin 0)))"
    using assms(1) by (auto simp: all_zero_def list_all_length)
  have "length (kern ! i) = m" using rows assms(2) by simp
  moreover have "kern ! i ! j = Some (I 0) \<or> kern ! i ! j = Some (F (Fin 0))"
    using rows assms(2,3) by simp
  ultimately show ?thesis
    using len assms(2,3) by (auto simp: get_cell_def is_zero_def)
qed

lemma py_max_zero: "is_zero z \<Longrightarrow> py_max (I 0) (py_abs z) = I 0"
  by (auto simp: is_zero_def py_max_def py_abs_def num_less_def exact_value_def)

lemma find_max_value_all_zero:
  assumes "all_zero m kern"
  shows "find_max_value (int m) kern = Inr (I 0)"
proof -
  let ?body = "\<lambda>i j acc. bind_res (get_cell kern i j)
                 (\<lambda>v. Inr (py_max acc (py_abs v)) :: py_error + num)"
  have row: "\<exists>acc'. for_each [0 ..< m] (?body i) acc = Inr acc' \<and> acc' = I 0"
    if "i < m" "acc = I 0" for i acc
  proof (rule for_each_upt_pred [where P = "\<lambda>j a. a = I 0"])
    show "acc = I 0" by (rule that(2))
  next
    fix k st assume "k < m" "st = I 0"
    then show "\<exists>st'. ?body i k st = Inr st' \<and> st' = I 0"
      using all_zero_cell [OF assms that(1) \<open>k < m\<close>] by (auto simp: py_max_zero)
  qed
  have "\<exists>acc. for_each [0 ..< m] (\<lambda>i. for_each [0 ..< m] (?body i)) (I 0) = Inr acc \<and> acc = I 0"
    by (rule for_each_upt_pred [where P = "\<lambda>i a. a = I 0"]) (simp_all add: row)
  then show ?thesis
    by (simp add: find_max_value_def scan_cells_def py_range_def)
qed

lemma py_truediv_by_zero: "is_zero z \<Longrightarrow> py_truediv M z (I 0) = Inl ZeroDivisionError"
  by (auto simp: is_zero_def py_truediv_def to_float_def int_to_float_def)

lemma divide_cells_all_zero:
  assumes "all_zero m kern" "0 < m"
  shows "divide_cells M (int m) (I 0) kern = Inl ZeroDivisionError"
proof -
  let ?inner = "\<lambda>i. for_each [0 ..< m]
     (\<lambda>j kern. bind_res (get_cell kern i j) (\<lambda>v.
                  bind_res (py_truediv M v (I 0)) (\<lambda>v'. set_cell kern i j v')))"
  obtain z where z: "get_cell kern 0 0 = Inr z" "is_zero z"
    using all_zero_cell [OF assms(1,2,2)] by blast
  have first: "?inner 0 kern = Inl ZeroDivisionError"
    by (rule for_each_first_fails [OF assms(2)]) (simp add: z(1) py_truediv_by_zero [OF z(2)])
  have "for_each [0 ..< m] ?inner kern = Inl ZeroDivisionError"
    using assms(2) first by (rule for_each_first_fails [where body = ?inner])
  then show ?thesis
    by (simp add: divide_cells_def update_cells_def py_range_def)
qed

lemma kernel_max_all_zero:
  assumes "1 \<le> n"
    and "laplacian_of_gaussian_kernel M n d s u1 u2 zc False False = Inr K1"
    and "all_zero (nat n) K1"
  shows "laplacian_of_gaussian_kernel M n d s u1 u2 zc True al = Inl ZeroDivisionError"
proof -
  have m: "0 < nat n" "int (nat n) = n" using assms(1) by simp_all
  have "laplacian_of_gaussian_kernel M n d s u1 u2 zc True False = Inl ZeroDivisionError"
    using find_max_value_all_zero [OF assms(3), unfolded m(2)]
      divide_cells_all_zero [OF assms(3) m(1), of M, unfolded m(2)]
    by (simp add: kernel_max_step [of M n d s u1 u2 zc True] assms(2))
  then show ?thesis
    by (simp add: kernel_l1_step [of M n d s u1 u2 zc True al])
qed

subsection \<open>A worked kernel of zeros\<close>

lemma fl_exact [simp]: "fl exact_machine r = Fin r"
  by (simp add: fl_def exact_machine_def)

lemma rnd_exact [simp]: "rnd exact_machine r = Fin r"
  by (simp add: exact_machine_def)

lemma two_pi_not_unit: "\<bar>2 * pi\<bar> \<noteq> 1"
  using pi_gt_zero pi_ge_two by simp

lemma two_pi_sq_not_unit: "\<bar>(2 * pi) powr 2\<bar> \<noteq> 1"
proof -
  have "1 < 2 * pi" using pi_gt_zero pi_ge_two by simp
  then have "(2 * pi) powr 0 < (2 * pi) powr 2" by (intro powr_less_mono) simp_all
  then have "1 < (2 * pi) powr 2" by simp
  then show ?thesis by linarith
qed

lemma exact_gaussian_unit:
  "\<exists>g. gaussian exact_machine (F (Fin a)) (F (Fin b)) (I 1) (I 0) (I 0) = Inr (F (Fin g))"
  if "\<bar>a\<bar> = 1" "\<bar>b\<bar> = 1"
  using that two_pi_not_unit two_pi_sq_not_unit
  by (simp add: gaussian_def sq_distance_def py_sub_def py_add_def py_mul_def py_pow_def
      py_truediv_def py_neg_def float_op_def to_float_def int_to_float_def float_pow_def
      finite_pow_def f_sub_def f_mul_def f_div_def odd_integer_def m_e_def m_pi_def literal_def
      exact_machine_def fl_def)

lemma exact_laplacian_unit:
  assumes "\<bar>a\<bar> = 1" "\<bar>b\<bar> = 1"
  shows "laplacian exact_machine (F (Fin a)) (F (Fin b)) (I 1) (I 0) (I 0) = Inr (F (Fin 0))"
proof -
  obtain g where g: "gaussian exact_machine (F (Fin a)) (F (Fin b)) (I 1) (I 0) (I 0)
                       = Inr (F (Fin g))"
    using exact_gaussian_unit [OF assms] by blast
  have "a \<noteq> 0" "b \<noteq> 0" using assms by auto
  then show ?thesis
    using assms
    by (simp add: laplacian_def g sq_distance_def py_sub_def py_add_def py_mul_def py_pow_def
        py_truediv_def float_op_def to_float_def int_to_float_def float_pow_def
        finite_pow_def f_sub_def f_mul_def f_div_def odd_integer_def)
qed

lemma exact_coordinate:
  "coordinate exact_machine 2 (I c) k = Inr (F (Fin (real_of_int c * (2 * real k - 1))))"
  by (simp add: coordinate_def py_truediv_def py_mul_def py_sub_def float_op_def to_float_def
      int_to_float_def f_mul_def f_sub_def)

lemma exact_kernel_of_zeros:
  "laplacian_of_gaussian_kernel exact_machine 2 (I 1) (I 1) (I 0) (I 0) True False False
     = Inr [[Some (F (Fin 0)), Some (F (Fin 0))], [Some (F (Fin 0)), Some (F (Fin 0))]]"
  by (simp add: laplacian_of_gaussian_kernel_def sample_kernel_def fill_row_def py_range_def
      upt_2 empty_kernel_def exact_coordinate py_neg_def exact_laplacian_unit set_cell_def
      get_cell_def py_add_def py_sub_def py_truediv_def float_op_def to_float_def
      int_to_float_def f_sub_def f_div_def subtract_mean_def update_cells_def)

section \<open>The claims\<close>

text \<open>
  The closed forms and the normalization identities of the specification (the value of
  \<^verbatim>\<open>gaussian\<close>, a cell sum of exactly 0, a maximum of exactly 1, the symmetry of the
  kernel) are identities of real arithmetic. On doubles they depend on how each
  operation rounds, overflows and underflows and on the C library's \<^verbatim>\<open>pow\<close>, which
  this model leaves open; none of them is stated here. What follows holds on every
  machine.
\<close>

text \<open>
  Claim C7 as it stands fails. It says that for \<open>s = 0\<close>, for \<open>side_length = 1\<close> and
  for \<^verbatim>\<open>max_normalize\<close> on an all-zero kernel the functions still return, carrying
  infinities or NaNs. Python's division raises \<^verbatim>\<open>ZeroDivisionError\<close> on a zero
  divisor instead. Two calls that raise on every machine, their arguments ints:
  \<^verbatim>\<open>gaussian(1, 1, 0, 0, 0)\<close>, and the builder with \<open>side_length = 1\<close>,
  \<^verbatim>\<open>laplacian_of_gaussian_kernel(1, 1, 1, 0, 0)\<close>.
\<close>

theorem degenerate_parameters_return_counterexample:
  "\<forall>M. gaussian M (I 1) (I 1) (I 0) (I 0) (I 0) = Inl ZeroDivisionError \<and>
       laplacian_of_gaussian_kernel M 1 (I 1) (I 1) (I 0) (I 0) True True False
         = Inl ZeroDivisionError"
  by (simp add: kernel_one gaussian_def sq_distance_def py_sub_def py_add_def py_mul_def
      py_pow_def py_neg_def py_truediv_def)

text \<open>
  Claim C7, as amended. With \<open>s = 0\<close> (the int \<open>0\<close> or the float \<open>0.0\<close>) both
  evaluators raise an exception and return nothing: \<^verbatim>\<open>ZeroDivisionError\<close>, or
  \<^verbatim>\<open>OverflowError\<close> when a square or a conversion overflows before the division is
  reached; so does the builder for every \<open>side_length \<ge> 0\<close>. For \<open>side_length = 1\<close>
  the builder raises \<^verbatim>\<open>ZeroDivisionError\<close> whatever its other arguments are. And
  for \<open>side_length \<ge> 1\<close>, when the kernel after the optional zero-centering (what the
  builder returns with the two later flags false) has a zero in every cell, the builder
  with \<^verbatim>\<open>max_normalize\<close> raises \<^verbatim>\<open>ZeroDivisionError\<close>.
\<close>

theorem degenerate_parameters_raise:
  "(is_zero s \<longrightarrow>
      (gaussian M x y s u1 u2 = Inl ZeroDivisionError \<or>
       gaussian M x y s u1 u2 = Inl OverflowError) \<and>
      (laplacian M x y s u1 u2 = Inl ZeroDivisionError \<or>
       laplacian M x y s u1 u2 = Inl OverflowError) \<and>
      (0 \<le> side_length \<longrightarrow>
         laplacian_of_gaussian_kernel M side_length domain s u1 u2 zc mx al
           = Inl ZeroDivisionError \<or>
         laplacian_of_gaussian_kernel M side_length domain s u1 u2 zc mx al
           = Inl OverflowError)) \<and>
   laplacian_of_gaussian_kernel M 1 domain s u1 u2 zc mx al = Inl ZeroDivisionError \<and>
   (1 \<le> side_length \<and>
    laplacian_of_gaussian_kernel M side_length domain s u1 u2 zc False False = Inr K1 \<and>
    all_zero (nat side_length) K1 \<longrightarrow>
      laplacian_of_gaussian_kernel M side_length domain s u1 u2 zc True al
        = Inl ZeroDivisionError)"
  using gaussian_zero [of s M x y u1 u2] laplacian_zero [of s M x y u1 u2]
    kernel_zero_sigma [of side_length s M domain u1 u2 zc mx al]
    kernel_one [of M domain s u1 u2 zc mx al]
    kernel_max_all_zero [of side_length M domain s u1 u2 zc K1 al]
  by blast

theorem degenerate_parameters_raise_witness:
  "is_zero (I 0) \<and>
   (gaussian exact_machine (I 1) (I 1) (I 0) (I 0) (I 0) = Inl ZeroDivisionError \<or>
    gaussian exact_machine (I 1) (I 1) (I 0) (I 0) (I 0) = Inl OverflowError) \<and>
   (laplacian exact_machine (I 1) (I 1) (I 0) (I 0) (I 0) = Inl ZeroDivisionError \<or>
    laplacian exact_machine (I 1) (I 1) (I 0) (I 0) (I 0) = Inl OverflowError) \<and>
   (0::int) \<le> 3 \<and>
   (laplacian_of_gaussian_kernel exact_machine 3 (I 1) (I 0) (I 0) (I 0) True True False
      = Inl ZeroDivisionError \<or>
    laplacian_of_gaussian_kernel exact_machine 3 (I 1) (I 0) (I 0) (I 0) True True False
      = Inl OverflowError) \<and>
   laplacian_of_gaussian_kernel exact_machine 1 (I 1) (I 1) (I 0) (I 0) True True False
     = Inl ZeroDivisionError \<and>
   (1::int) \<le> 2 \<and>
   laplacian_of_gaussian_kernel exact_machine 2 (I 1) (I 1) (I 0) (I 0) True False False
     = Inr [[Some (F (Fin 0)), Some (F (Fin 0))], [Some (F (Fin 0)), Some (F (Fin 0))]] \<and>
   all_zero (nat 2) [[Some (F (Fin 0)), Some (F (Fin 0))], [Some (F (Fin 0)), Some (F (Fin 0))]] \<and>
   laplacian_of_gaussian_kernel exact_machine 2 (I 1) (I 1) (I 0) (I 0) True True False
     = Inl ZeroDivisionError"
proof -
  let ?K = "[[Some (F (Fin 0)), Some (F (Fin 0))], [Some (F (Fin 0)), Some (F (Fin 0))]]"
  have z: "is_zero (I 0)" by (simp add: is_zero_def)
  have k: "laplacian_of_gaussian_kernel exact_machine 2 (I 1) (I 1) (I 0) (I 0) True False False
             = Inr ?K"
    by (rule exact_kernel_of_zeros)
  have a: "all_zero (nat 2) ?K" by (simp add: all_zero_def)
  show ?thesis
    using z k a
      degenerate_parameters_raise [of "I 0" exact_machine "I 1" "I 1" "I 0" "I 0" 3 "I 1"
        True True False ?K]
      degenerate_parameters_raise [of "I 1" exact_machine "I 1" "I 1" "I 0" "I 0" 2 "I 1"
        True True False ?K]
    by simp
qed

text \<open>
  Claim C10. For \<open>side_length = 0\<close> the ranges are empty, the sampling loops run zero
  times and leave the kernel \<open>[]\<close> and the mean, the int 0; \<^verbatim>\<open>mean /= side_length**2\<close>
  then divides the int 0 by the int 0, so the builder raises \<^verbatim>\<open>ZeroDivisionError\<close>
  whatever the three flags are, and returns no kernel.
\<close>

theorem side_length_zero_raises:
  "py_range 0 = [] \<and>
   for_each (py_range 0) (fill_row M 0 domain s u1 u2) (empty_kernel 0, I 0) = Inr ([], I 0) \<and>
   sample_kernel M 0 domain s u1 u2 = Inl ZeroDivisionError \<and>
   laplacian_of_gaussian_kernel M 0 domain s u1 u2 zero_center max_normalize absolute_l1_normalize
     = Inl ZeroDivisionError"
  by (simp add: laplacian_of_gaussian_kernel_def sample_kernel_def py_range_def empty_kernel_def
      py_truediv_def)

text \<open>
  Claim C9 as it stands fails. It says that among candidates with an equal minimal score
  the search reports the one evaluated last. Under the strict comparison
  \<^verbatim>\<open>current_diff < min_diff\<close> a later candidate with an equal score does not replace
  the one kept. On a \<open>2 \<times> 2\<close> grid whose four candidates all score 1.0, the two loops
  end with the candidate of \<open>i = 0\<close>, \<open>j = 0\<close>, not with that of \<open>i = 1\<close>, \<open>j = 1\<close>.
\<close>

theorem search_keeps_last_minimum_counterexample:
  "search_grid 2 (\<lambda>i j. Inr ((F (Fin (real j)), F (Fin (real i))), [], F (Fin 1)))
     = Inr \<lparr>values_str = Some (F (Fin 0), F (Fin 0)), new_kernel = Some [],
            min_diff = F (Fin 1)\<rparr> \<and>
   (F (Fin 0), F (Fin 0)) \<noteq> (F (Fin (real 1)), F (Fin (real 1)))"
  by (simp add: search_grid_def py_range_def upt_2 keep_minimum_def num_less_def exact_value_def)

text \<open>
  Claim C9, as amended. When every candidate is evaluated without an exception, and the
  candidate of \<open>(i0, j0)\<close> has a score below the initial \<^verbatim>\<open>min_diff = 100000\<close> that
  no candidate undercuts and that every candidate evaluated before it (rows, then
  columns, ascending) exceeds, the search ends with that candidate, its kernel and its
  score: among candidates with an equal minimal score it reports the one evaluated
  first. The comparisons are Python's \<^verbatim>\<open><\<close> on numbers.
\<close>

theorem search_keeps_first_minimum:
  assumes "\<forall>i < nat search. \<forall>j < nat search.
             evaluate i j = Inr (cand i j, kern i j, diff i j)"
    and "i0 < nat search" "j0 < nat search"
    and "num_less (diff i0 j0) (I 100000)"
    and "\<forall>i < nat search. \<forall>j < nat search. \<not> num_less (diff i j) (diff i0 j0)"
    and "\<forall>i < nat search. \<forall>j < nat search.
             i < i0 \<or> (i = i0 \<and> j < j0) \<longrightarrow> num_less (diff i0 j0) (diff i j)"
  shows "search_grid search evaluate
           = Inr \<lparr>values_str = Some (cand i0 j0), new_kernel = Some (kern i0 j0),
                  min_diff = diff i0 j0\<rparr>"
proof -
  have "int (nat search) = search" using assms(2) by simp
  then show ?thesis
    using search_grid_first_minimum [of "nat search" evaluate cand kern diff i0 j0] assms
    by simp
qed

theorem search_keeps_first_minimum_witness:
  "(0::nat) < nat 2 \<and> (1::nat) < nat 2 \<and> num_less (F (Fin 1)) (I 100000) \<and>
   search_grid 2 (\<lambda>i j. Inr ((F (Fin (real j)), F (Fin (real i))), [],
                            if i = 0 \<and> j = 0 then F (Fin 2) else F (Fin 1)))
     = Inr \<lparr>values_str = Some (F (Fin (real 1)), F (Fin (real 0))), new_kernel = Some [],
            min_diff = F (Fin 1)\<rparr>"
proof -
  let ?diff = "\<lambda>i j. if i = (0::nat) \<and> j = (0::nat) then F (Fin 2) else F (Fin 1)"
  let ?cand = "\<lambda>(i::nat) (j::nat). (F (Fin (real j)), F (Fin (real i)))"
  let ?ev = "\<lambda>i j. Inr (?cand i j, [] :: kernel, ?diff i j) :: py_error + scored"
  have 1: "\<forall>i < nat 2. \<forall>j < nat 2. ?ev i j = Inr (?cand i j, (\<lambda>i j. []) i j, ?diff i j)"
    by simp
  have 2: "(0::nat) < nat 2" and 3: "(1::nat) < nat 2" by simp_all
  have 4: "num_less (?diff 0 1) (I 100000)" by (simp add: num_less_def exact_value_def)
  have 5: "\<forall>i < nat 2. \<forall>j < nat 2. \<not> num_less (?diff i j) (?diff 0 1)"
    by (simp add: num_less_def exact_value_def)
  have 6: "\<forall>i < nat 2. \<forall>j < nat 2. i < 0 \<or> (i = 0 \<and> j < 1) \<longrightarrow> num_less (?diff 0 1) (?diff i j)"
    by (simp add: num_less_def exact_value_def)
  show ?thesis
    using search_keeps_first_minimum [of 2 ?ev ?cand "\<lambda>i j. []" ?diff 0 1, OF 1 2 3 4 5 6] 4
    by simp
qed

end
